theory Spec2Isabelle
  imports Complex_Main "HOL-Library.Sublist"
begin

section \<open>Python primitives used by the resume analyzer\<close>

datatype py_error = PyException string

text \<open>
  Text is a \<^typ>\<open>string\<close>. The operations on text that the source uses are
  \<open>str.lower\<close>, \<open>str.strip\<close>, \<open>str.split\<close>, the substring test \<open>in\<close>, slicing and
  \<open>len\<close>. Lower-casing and whitespace are those of the ASCII range; a character of a
  source literal outside ASCII is written as its UTF-8 bytes.

  A float is modelled by the \<^typ>\<open>real\<close> number it stands for. In the keyword fallback
  scorer the arithmetic on floats is idealised: the model computes with exact values
  where the interpreter rounds to the nearest double. The two agree up to that rounding;
  where an exact product or sum is an integer, the interpreter's value can lie just below
  it and truncate to one less. The clamps, the defaults 60 and 70 and the values of the
  worked scenario are the same in both. In the semantic scorer the arithmetic on floats is
  not idealised: numpy's mean and the float product are parameters of the model.

  An exception is a value of \<^typ>\<open>py_error + 'a\<close>, with the message that \<open>str\<close>
  gives. Python does not restrict the arguments of a function to strings; where a claim
  depends on what happens on other arguments, they are values of \<open>py_object\<close>.
\<close>

datatype py_object = PyStr string | PyNone | PyInt int

fun type_name :: "py_object \<Rightarrow> string" where
  "type_name (PyStr s) = ''str''"
| "type_name PyNone = ''NoneType''"
| "type_name (PyInt n) = ''int''"

text \<open>The \<open>AttributeError\<close> of the method call \<open>.lower()\<close> on an object without it.\<close>

definition no_lower :: "py_object \<Rightarrow> py_error" where
  "no_lower v =
     PyException (CHR 0x27 # type_name v @ CHR 0x27 # '' object has no attribute ''
                    @ CHR 0x27 # ''lower'' @ [CHR 0x27])"

fun str_of_error :: "py_error \<Rightarrow> string" where
  "str_of_error (PyException msg) = msg"

definition lower_char :: "char \<Rightarrow> char" where
  "lower_char c =
     (if (65::nat) \<le> of_char c \<and> of_char c \<le> (90::nat)
      then char_of (of_char c + (32::nat)) else c)"

definition py_lower :: "string \<Rightarrow> string" where
  "py_lower s = map lower_char s"

definition is_space :: "char \<Rightarrow> bool" where
  "is_space c =
     (let n = (of_char c :: nat) in (9 \<le> n \<and> n \<le> 13) \<or> (28 \<le> n \<and> n \<le> 32))"

definition py_strip :: "string \<Rightarrow> string" where
  "py_strip s = rev (dropWhile is_space (rev (dropWhile is_space s)))"

text \<open>
  \<open>s.split(sep)\<close> for a separator of one character. The result is never empty, so the
  first branch of the \<open>case\<close> is not taken.
\<close>

fun py_split :: "char \<Rightarrow> string \<Rightarrow> string list" where
  "py_split sep [] = [[]]"
| "py_split sep (c # cs) =
     (if c = sep then [] # py_split sep cs
      else (case py_split sep cs of
              [] \<Rightarrow> [[c]]
            | w # ws \<Rightarrow> (c # w) # ws))"

fun py_join :: "char \<Rightarrow> string list \<Rightarrow> string" where
  "py_join sep [] = []"
| "py_join sep [w] = w"
| "py_join sep (w # v # ws) = w @ sep # py_join sep (v # ws)"

fun starts_with :: "string \<Rightarrow> string \<Rightarrow> bool" where
  "starts_with s [] = True"
| "starts_with [] (p # ps) = False"
| "starts_with (c # cs) (p # ps) = (c = p \<and> starts_with cs ps)"

fun py_in :: "string \<Rightarrow> string \<Rightarrow> bool" where
  "py_in sub [] = (sub = [])"
| "py_in sub (c # cs) = (starts_with (c # cs) sub \<or> py_in sub cs)"

text \<open>
  \<open>int(x)\<close> on a float truncates toward zero. \<open>None\<close> stands for NaN, on which
  \<open>int\<close> raises.
\<close>

definition trunc_toward_zero :: "real \<Rightarrow> int" where
  "trunc_toward_zero x = (if 0 \<le> x then \<lfloor>x\<rfloor> else \<lceil>x\<rceil>)"

definition py_int :: "real option \<Rightarrow> py_error + int" where
  "py_int x =
     (case x of
        None \<Rightarrow> Inl (PyException ''cannot convert float NaN to integer'')
      | Some v \<Rightarrow> Inr (trunc_toward_zero v))"

section \<open>app.py: the keyword fallback scorer\<close>

definition technical_skills :: "string list" where
  "technical_skills =
     [''python'', ''java'', ''javascript'', ''react'', ''node'', ''sql'', ''mongodb'', ''aws'',
      ''docker'', ''kubernetes'', ''git'', ''html'', ''css'', ''angular'', ''vue'', ''php'',
      ''c++'', ''c#'', ''.net'', ''spring'', ''django'', ''flask'', ''express'', ''mysql'',
      ''postgresql'', ''redis'', ''elasticsearch'', ''machine learning'', ''ai'',
      ''data science'', ''tensorflow'', ''pytorch'', ''pandas'', ''numpy'', ''api'', ''rest'',
      ''graphql'', ''microservices'', ''devops'', ''ci/cd'', ''jenkins'', ''terraform'',
      ''azure'', ''gcp'', ''linux'', ''windows'', ''android'', ''ios'', ''swift'', ''kotlin'',
      ''flutter'', ''blockchain'', ''solidity'', ''web3'', ''rust'', ''go'', ''scala'', ''r'',
      ''matlab'', ''tableau'']"

definition soft_skills :: "string list" where
  "soft_skills =
     [''leadership'', ''communication'', ''teamwork'', ''problem solving'', ''analytical'',
      ''project management'', ''agile'', ''scrum'', ''collaboration'', ''mentoring'',
      ''creativity'', ''adaptability'', ''time management'', ''critical thinking'',
      ''decision making'']"

definition jd_technical :: "string \<Rightarrow> string list" where
  "jd_technical job_description =
     [skill \<leftarrow> technical_skills. py_in skill (py_lower job_description)]"

definition jd_soft :: "string \<Rightarrow> string list" where
  "jd_soft job_description =
     [skill \<leftarrow> soft_skills. py_in skill (py_lower job_description)]"

definition resume_technical :: "string \<Rightarrow> string \<Rightarrow> string list" where
  "resume_technical resume_text job_description =
     [skill \<leftarrow> jd_technical job_description. py_in skill (py_lower resume_text)]"

definition resume_soft :: "string \<Rightarrow> string \<Rightarrow> string list" where
  "resume_soft resume_text job_description =
     [skill \<leftarrow> jd_soft job_description. py_in skill (py_lower resume_text)]"

definition technical_score :: "string \<Rightarrow> string \<Rightarrow> real" where
  "technical_score resume_text job_description =
     (if jd_technical job_description \<noteq> []
      then real (length (resume_technical resume_text job_description))
             / real (max (length (jd_technical job_description)) 1) * 100
      else 60)"

definition soft_score :: "string \<Rightarrow> string \<Rightarrow> real" where
  "soft_score resume_text job_description =
     (if jd_soft job_description \<noteq> []
      then real (length (resume_soft resume_text job_description))
             / real (max (length (jd_soft job_description)) 1) * 100
      else 70)"

definition weighted_score :: "string \<Rightarrow> string \<Rightarrow> real" where
  "weighted_score resume_text job_description =
     technical_score resume_text job_description * 0.7
       + soft_score resume_text job_description * 0.3"

text \<open>The \<open>try\<close> block on two strings.\<close>

definition keyword_fallback_body :: "string \<Rightarrow> string \<Rightarrow> py_error + int" where
  "keyword_fallback_body resume_text job_description =
     (case py_int (Some (weighted_score resume_text job_description)) of
        Inl e \<Rightarrow> Inl e
      | Inr n \<Rightarrow> Inr (max 15 (min 90 n)))"

text \<open>
  The \<open>try\<close> block on any two arguments: its first two statements call \<open>.lower()\<close> on
  the resume, then on the job description, and raise on an argument that is not a string.
\<close>

fun keyword_fallback_try :: "py_object \<Rightarrow> py_object \<Rightarrow> py_error + int" where
  "keyword_fallback_try (PyStr resume_text) (PyStr job_description) =
     keyword_fallback_body resume_text job_description"
| "keyword_fallback_try (PyStr resume_text) job_description = Inl (no_lower job_description)"
| "keyword_fallback_try resume_text job_description = Inl (no_lower resume_text)"

text \<open>The function with its \<open>except Exception: return 50\<close>, on any two arguments.\<close>

definition calculate_keyword_fallback_score_obj ::
    "py_object \<Rightarrow> py_object \<Rightarrow> py_error + int" where
  "calculate_keyword_fallback_score_obj resume_text job_description =
     (case keyword_fallback_try resume_text job_description of
        Inl e \<Rightarrow> Inr 50
      | Inr n \<Rightarrow> Inr n)"

text \<open>The function on two strings.\<close>

definition calculate_keyword_fallback_score :: "string \<Rightarrow> string \<Rightarrow> py_error + int" where
  "calculate_keyword_fallback_score resume_text job_description =
     calculate_keyword_fallback_score_obj (PyStr resume_text) (PyStr job_description)"

text \<open>The two texts of the specification's worked scenario.\<close>

definition scenario_resume :: string where
  "scenario_resume = ''I have experience with python and react and strong leadership skills.''"

definition scenario_jd :: string where
  "scenario_jd = ''Looking for a python developer with react experience and leadership.''"

section \<open>app.py: segmentation and the semantic scorer\<close>

definition sentences :: "string \<Rightarrow> string list" where
  "sentences text =
     [py_strip sent. sent \<leftarrow> py_split CHR ''.'' text, length (py_strip sent) > 10]"

definition segment :: "string \<Rightarrow> string list" where
  "segment text = (if length (sentences text) < 3 then [text] else sentences text)"

text \<open>
  The sentence-transformer model and scikit-learn's \<open>cosine_similarity\<close> are external:
  they are parameters, and each may raise. \<open>'e\<close> is the type of an embedding matrix.

  The arithmetic on floats is external as well. Which float format the similarities have,
  and how \<open>np.mean\<close> orders its additions, is decided by the libraries, not by this
  program. \<open>float_mean xs\<close> is the float that \<open>np.mean\<close> returns on a non-empty array
  \<open>xs\<close>, and \<open>float_times x y\<close> is the float product \<open>x * y\<close>; both round.
\<close>

record 'e backend =
  load_sentence_transformer :: "py_error + (string list \<Rightarrow> py_error + 'e)"
  cosine_similarity :: "'e \<Rightarrow> 'e \<Rightarrow> py_error + real list list"
  float_mean :: "real list \<Rightarrow> real"
  float_times :: "real \<Rightarrow> real \<Rightarrow> real"

text \<open>The maximum of a row; \<open>np_max_axis1\<close> calls it on rows with entries only.\<close>

fun list_max :: "real list \<Rightarrow> real" where
  "list_max [] = 0"
| "list_max (x # xs) = fold max xs x"

text \<open>
  \<open>np.max(m, axis=1)\<close> raises on a row without entries; \<open>np.mean\<close> of an empty array
  is NaN. A matrix without rows ends in an exception at \<open>int\<close>.
\<close>

definition np_max_axis1 :: "real list list \<Rightarrow> py_error + real list" where
  "np_max_axis1 m =
     (if [] \<in> set m
      then Inl (PyException
             ''zero-size array to reduction operation maximum which has no identity'')
      else Inr (map list_max m))"

definition np_mean :: "'e backend \<Rightarrow> real list \<Rightarrow> real option" where
  "np_mean B xs = (if xs = [] then None else Some (float_mean B xs))"

definition semantic_body :: "'e backend \<Rightarrow> string \<Rightarrow> string \<Rightarrow> py_error + int" where
  "semantic_body B resume_text job_description =
     (case load_sentence_transformer B of
        Inl e \<Rightarrow> Inl e
      | Inr model \<Rightarrow>
     (case model (segment resume_text) of
        Inl e \<Rightarrow> Inl e
      | Inr resume_embeddings \<Rightarrow>
     (case model (segment job_description) of
        Inl e \<Rightarrow> Inl e
      | Inr jd_embeddings \<Rightarrow>
     (case cosine_similarity B resume_embeddings jd_embeddings of
        Inl e \<Rightarrow> Inl e
      | Inr similarity_matrix \<Rightarrow>
     (case np_max_axis1 similarity_matrix of
        Inl e \<Rightarrow> Inl e
      | Inr max_similarities \<Rightarrow>
     (case py_int (map_option (\<lambda>overall_similarity. float_times B overall_similarity 100)
                    (np_mean B max_similarities)) of
        Inl e \<Rightarrow> Inl e
      | Inr percentage_score \<Rightarrow> Inr (max 10 (min 95 percentage_score))))))))"

text \<open>
  The result is the list of messages shown by \<open>st.error\<close> and the outcome of the call.
\<close>

definition calculate_semantic_similarity ::
    "'e backend \<Rightarrow> string \<Rightarrow> string \<Rightarrow> string list \<times> (py_error + int)" where
  "calculate_semantic_similarity B resume_text job_description =
     (case semantic_body B resume_text job_description of
        Inr score \<Rightarrow> ([], Inr score)
      | Inl e \<Rightarrow>
          ([''Error in semantic analysis: '' @ str_of_error e],
           calculate_keyword_fallback_score resume_text job_description))"

section \<open>app.py: feedback for a score\<close>

definition get_score_feedback :: "int \<Rightarrow> string \<times> string \<times> string \<times> string" where
  "get_score_feedback score =
     (if score \<ge> 80 then
        (CHR 0xF0 # CHR 0x9F # CHR 0x8E # CHR 0x89 #
           '' Excellent match! Your resume aligns very well with this job.'',
         ''success'', ''#28a745'', ''#d4edda'')
      else if score \<ge> 65 then
        (CHR 0xF0 # CHR 0x9F # CHR 0x91 # CHR 0x8D #
           '' Good match! Consider highlighting relevant skills more prominently.'',
         ''info'', ''#17a2b8'', ''#d1ecf1'')
      else if score \<ge> 45 then
        (CHR 0xE2 # CHR 0x9A # CHR 0xA0 # CHR 0xEF # CHR 0xB8 # CHR 0x8F #
           '' Moderate match. You may want to tailor your resume for this role.'',
         ''warning'', ''#ffc107'', ''#fff3cd'')
      else if score \<ge> 25 then
        (CHR 0xE2 # CHR 0x9D # CHR 0x8C #
           '' Low match. Consider significant resume adjustments for this position.'',
         ''error'', ''#dc3545'', ''#f8d7da'')
      else
        (CHR 0xF0 # CHR 0x9F # CHR 0x94 # CHR 0xB4 #
           '' Very low match. This role may not be suitable or resume needs major updates.'',
         ''error'', ''#dc3545'', ''#f8d7da''))"

text \<open>The five bands of the specification, read off the first word of the message.\<close>

datatype tier = Excellent | Good | Moderate | Low | Very_low

definition tier_of :: "string \<times> string \<times> string \<times> string \<Rightarrow> tier option" where
  "tier_of fb =
     (let msg = fst fb in
      if py_in '' Excellent match!'' msg then Some Excellent
      else if py_in '' Good match!'' msg then Some Good
      else if py_in '' Moderate match.'' msg then Some Moderate
      else if py_in '' Very low match.'' msg then Some Very_low
      else if py_in '' Low match.'' msg then Some Low
      else None)"

text \<open>
  The semantic score as the specification words it: the mean over the rows of the
  similarity matrix of the row maxima, times 100, rounded, clamped to 10..95.
\<close>

definition overall_similarity :: "real list list \<Rightarrow> real" where
  "overall_similarity m = (\<Sum>row\<leftarrow>m. Max (set row)) / real (length m)"

definition spec_semantic_score :: "real list list \<Rightarrow> int" where
  "spec_semantic_score m = max 10 (min 95 (round (overall_similarity m * 100)))"

text \<open>
  IEEE single precision, for tests: \<open>float32 x\<close> is the float nearest to \<open>x\<close>, ties
  to even, for \<open>x\<close> below the overflow threshold. \<open>binade\<close> finds the exponent \<open>e\<close>
  with \<open>2^e \<le> x < 2^(e+1)\<close>; the exponents of the format lie between -149 and 127, so
  300 steps reach every one of them.
\<close>

definition round_half_even :: "real \<Rightarrow> int" where
  "round_half_even x =
     (let f = \<lfloor>x\<rfloor>; d = x - of_int f
      in if d < 1 / 2 then f else if 1 / 2 < d then f + 1
         else if even f then f else f + 1)"

fun binade :: "nat \<Rightarrow> real \<Rightarrow> int \<Rightarrow> int" where
  "binade 0 x e = e"
| "binade (Suc fuel) x e =
     (if 2 \<le> x then binade fuel (x / 2) (e + 1)
      else if x < 1 then binade fuel (x * 2) (e - 1)
      else e)"

definition pow2 :: "int \<Rightarrow> real" where
  "pow2 e = (if 0 \<le> e then 2 ^ nat e else 1 / 2 ^ nat (- e))"

definition float32 :: "real \<Rightarrow> real" where
  "float32 x =
     (if x = 0 then 0
      else (let ulp = pow2 (max (binade 300 \<bar>x\<bar> 0) (- 126) - 23)
            in sgn x * of_int (round_half_even (\<bar>x\<bar> / ulp)) * ulp))"

text \<open>
  A backend for tests: the model loads, encoding succeeds, the similarity matrix is the
  given one, and the floats are single precision. The mean adds the entries from left to
  right, as numpy does for an array of fewer than 8 entries, and divides by their number.
\<close>

definition float32_backend :: "real list list \<Rightarrow> unit backend" where
  "float32_backend m =
     \<lparr>load_sentence_transformer = Inr (\<lambda>units. Inr ()),
      cosine_similarity = (\<lambda>resume_embeddings jd_embeddings. Inr m),
      float_mean = (\<lambda>xs. float32 (fold (\<lambda>x acc. float32 (acc + x)) xs 0
                                    / real (length xs))),
      float_times = (\<lambda>x y. float32 (x * y))\<rparr>"

text \<open>
  Two texts of three units each and a matrix of similarities between their units. Every
  entry, the sums of the row maxima, their mean 0.7578125 and its product 75.78125 with
  100 are floats, in single and in double precision.
\<close>

definition three_unit_resume :: string where
  "three_unit_resume =
     ''Built data pipelines in Python. Led a team of five engineers. Shipped three products.''"

definition three_unit_jd :: string where
  "three_unit_jd =
     ''We need a Python developer. You will lead a small team. You will ship products.''"

definition three_unit_matrix :: "real list list" where
  "three_unit_matrix =
     [[0.75, 0.5, 0.25],
      [0.125, 0.75, 0.5],
      [0.25, 0.5, 0.7734375]]"

text \<open>The single-precision float nearest to 0.29, as a 1 by 1 similarity matrix.\<close>

definition near_029_matrix :: "real list list" where
  "near_029_matrix = [[9730785 / 33554432]]"

text \<open>A backend whose model fails to load.\<close>

definition failing_backend :: "unit backend" where
  "failing_backend =
     (float32_backend [])
       \<lparr>load_sentence_transformer := Inl (PyException ''model unavailable'')\<rparr>"

section \<open>resume_analyzer.py: the LLM feedback generator\<close>

text \<open>
  The patterns of \<open>_parse_analysis_result\<close> all have the shape
  \<open>header(.+?)(?=next|$)\<close>, the last one \<open>header(.+?)$\<close>, searched with
  \<open>re.DOTALL\<close>. The lazy group takes one character and then as few more as needed for
  the look-ahead to hold; \<open>$\<close> holds at the end of the text and before a final newline.
  \<open>re.search\<close> tries the start positions from left to right.
\<close>

fun lazy_until :: "(string \<Rightarrow> bool) \<Rightarrow> string \<Rightarrow> string" where
  "lazy_until stop [] = []"
| "lazy_until stop (c # cs) = (if stop (c # cs) then [] else c # lazy_until stop cs)"

definition at_end :: "string \<Rightarrow> bool" where
  "at_end s = (s = [] \<or> s = [CHR 0x0A])"

definition next_starts :: "string option \<Rightarrow> string \<Rightarrow> bool" where
  "next_starts next s = (case next of None \<Rightarrow> False | Some h \<Rightarrow> starts_with s h)"

definition lookahead :: "string option \<Rightarrow> string \<Rightarrow> bool" where
  "lookahead next s = (next_starts next s \<or> at_end s)"

fun re_search_section :: "string \<Rightarrow> string option \<Rightarrow> string \<Rightarrow> string option" where
  "re_search_section header next [] = None"
| "re_search_section header next (c # cs) =
     (if starts_with (c # cs) header then
        (case drop (length header) (c # cs) of
           [] \<Rightarrow> re_search_section header next cs
         | d # ds \<Rightarrow> Some (d # lazy_until (lookahead next) ds))
      else re_search_section header next cs)"

text \<open>\<open>m.group(1).strip() if m else dflt\<close>\<close>

definition group_or :: "string option \<Rightarrow> string \<Rightarrow> string" where
  "group_or m dflt = (case m of Some g \<Rightarrow> py_strip g | None \<Rightarrow> dflt)"

text \<open>
  The dictionary that is returned is a map from keys to texts. No step of the \<open>try\<close>
  block raises on a string; the handler is the second branch of
  \<open>parse_analysis_result\<close>.
\<close>

definition parse_body :: "string \<Rightarrow> py_error + (string \<rightharpoonup> string)" where
  "parse_body result =
     (let skills_match = re_search_section ''Skills Match:'' (Some ''Missing Skills:'') result;
          missing_skills =
            re_search_section ''Missing Skills:'' (Some ''Improvement Tips:'') result;
          improvement_tips =
            re_search_section ''Improvement Tips:'' (Some ''Overall Score:'') result;
          overall_score = re_search_section ''Overall Score:'' (Some ''Strengths:'') result;
          strengths = re_search_section ''Strengths:'' (Some ''Weaknesses:'') result;
          weaknesses = re_search_section ''Weaknesses:'' None result
      in Inr [''skills_match'' \<mapsto> group_or skills_match ''Analysis completed'',
              ''missing_skills'' \<mapsto> group_or missing_skills ''See full analysis'',
              ''improvement_tips'' \<mapsto> group_or improvement_tips (take 500 result),
              ''overall_score'' \<mapsto> group_or overall_score ''N/A'',
              ''strengths'' \<mapsto> group_or strengths ''Analysis completed'',
              ''weaknesses'' \<mapsto> group_or weaknesses ''See improvement tips''])"

definition parse_analysis_result :: "string \<Rightarrow> (string \<rightharpoonup> string)" where
  "parse_analysis_result result =
     (case parse_body result of
        Inr analysis \<Rightarrow> analysis
      | Inl e \<Rightarrow>
          [''skills_match'' \<mapsto> ''Analysis completed - see detailed feedback below'',
           ''missing_skills'' \<mapsto> ''Analysis completed - see detailed feedback below'',
           ''improvement_tips'' \<mapsto> result,
           ''overall_score'' \<mapsto> ''N/A'',
           ''strengths'' \<mapsto> ''Analysis completed'',
           ''weaknesses'' \<mapsto> ''See detailed feedback''])"

text \<open>
  \<open>analyze_resume\<close>: the analysis chain is external and a parameter; it may raise. The
  result is the lines printed and the dictionary returned.
\<close>

definition truncate_inputs :: "string \<Rightarrow> string \<Rightarrow> string \<times> string" where
  "truncate_inputs resume_text job_description =
     (if length resume_text > 2000 then take 2000 resume_text else resume_text,
      if length job_description > 1000 then take 1000 job_description else job_description)"

definition analyze_resume ::
    "(string \<Rightarrow> string \<Rightarrow> py_error + string) \<Rightarrow> string \<Rightarrow> string
       \<Rightarrow> string list \<times> (string \<rightharpoonup> string)" where
  "analyze_resume analysis_chain_run resume_text job_description =
     (case truncate_inputs resume_text job_description of
        (resume_text', job_description') \<Rightarrow>
          (case analysis_chain_run resume_text' job_description' of
             Inr result \<Rightarrow> ([], parse_analysis_result result)
           | Inl e \<Rightarrow>
               ([''Analysis error: '' @ str_of_error e],
                [''skills_match'' \<mapsto> ''Analysis encountered an error. Please try again.'',
                 ''missing_skills'' \<mapsto> ''Unable to determine missing skills.'',
                 ''improvement_tips'' \<mapsto> ''Error during analysis: '' @ str_of_error e,
                 ''overall_score'' \<mapsto> ''N/A'',
                 ''strengths'' \<mapsto> ''Analysis incomplete'',
                 ''weaknesses'' \<mapsto> ''Analysis incomplete''])))"

text \<open>
  The parser as the specification words it: a section is the text after the first
  occurrence of its header, up to the next header or the end of the text.
\<close>

fun after_first :: "string \<Rightarrow> string \<Rightarrow> string option" where
  "after_first header [] = (if header = [] then Some [] else None)"
| "after_first header (c # cs) =
     (if starts_with (c # cs) header then Some (drop (length header) (c # cs))
      else after_first header cs)"

definition before_next :: "string option \<Rightarrow> string \<Rightarrow> string" where
  "before_next next s = lazy_until (next_starts next) s"

definition section_delimited ::
    "string \<Rightarrow> string option \<Rightarrow> string \<Rightarrow> string \<Rightarrow> string option \<Rightarrow> bool" where
  "section_delimited header next dflt result entry =
     (case entry of
        None \<Rightarrow> False
      | Some v \<Rightarrow>
          (case after_first header result of
             None \<Rightarrow> v = dflt
           | Some [] \<Rightarrow> v = dflt
           | Some (d # ds) \<Rightarrow>
               (\<not> next_starts next (d # ds) \<longrightarrow> v = py_strip (before_next next (d # ds)))))"

text \<open>A chain for tests: it answers with a skills section that quotes the resume.\<close>

definition echo_chain :: "string \<Rightarrow> string \<Rightarrow> py_error + string" where
  "echo_chain resume_text job_description = Inr (''Skills Match: '' @ resume_text)"

text \<open>An answer with three of the six sections, one line each.\<close>

definition sample_answer :: string where
  "sample_answer =
     ''Skills Match: Python, SQL'' @ [CHR 0x0A] @ ''Missing Skills: Docker'' @ [CHR 0x0A]
       @ ''Overall Score: 7'' @ [CHR 0x0A]"

section \<open>Properties of the keyword fallback scorer\<close>

lemma starts_with_prefix: "starts_with s p = prefix p s"
  by (induction s p rule: starts_with.induct) auto

text \<open>The substring test of the model is the contiguous-sublist relation.\<close>

lemma py_in_sublist: "py_in sub s = sublist sub s"
  by (induction s) (auto simp: starts_with_prefix sublist_Cons_right)

lemma py_int_Some: "py_int (Some v) = Inr (trunc_toward_zero v)"
  by (simp add: py_int_def)

lemma keyword_fallback_body_eq:
  "keyword_fallback_body r j = Inr (max 15 (min 90 (trunc_toward_zero (weighted_score r j))))"
  by (simp add: keyword_fallback_body_def py_int_Some)

lemma calculate_keyword_fallback_score_eq:
  "calculate_keyword_fallback_score r j =
     Inr (max 15 (min 90 (trunc_toward_zero (weighted_score r j))))"
  by (simp add: calculate_keyword_fallback_score_def calculate_keyword_fallback_score_obj_def
      keyword_fallback_body_eq)

lemma keyword_fallback_try_range:
  "keyword_fallback_try a b = Inr n \<Longrightarrow> 15 \<le> n \<and> n \<le> 90"
  by (induction a b rule: keyword_fallback_try.induct)
    (auto simp: keyword_fallback_body_eq)

text \<open>
  C3. For every pair of input strings the keyword fallback scorer returns (it never
  raises) an integer between 15 and 90 inclusive, and it is the integer that the \<open>try\<close>
  block produces: on strings no internal error occurs. On any two arguments, strings or
  not, the scorer returns an integer between 15 and 90; whenever the \<open>try\<close> block
  raises, that integer is the fixed default 50, and otherwise it is the block's result.
\<close>

theorem fallback_never_raises_in_range:
  "(\<exists>n. calculate_keyword_fallback_score r j = Inr n \<and> 15 \<le> n \<and> n \<le> 90
        \<and> keyword_fallback_body r j = Inr n
        \<and> keyword_fallback_try (PyStr r) (PyStr j) = Inr n)
   \<and> (\<exists>n. calculate_keyword_fallback_score_obj a b = Inr n \<and> 15 \<le> n \<and> n \<le> 90)
   \<and> ((\<exists>e. keyword_fallback_try a b = Inl e)
        \<longrightarrow> calculate_keyword_fallback_score_obj a b = Inr 50)
   \<and> (\<forall>n. keyword_fallback_try a b = Inr n
        \<longrightarrow> calculate_keyword_fallback_score_obj a b = Inr n)"
proof -
  have s: "\<exists>n. calculate_keyword_fallback_score r j = Inr n \<and> 15 \<le> n \<and> n \<le> 90
        \<and> keyword_fallback_body r j = Inr n
        \<and> keyword_fallback_try (PyStr r) (PyStr j) = Inr n"
    by (simp add: calculate_keyword_fallback_score_eq keyword_fallback_body_eq)
  have e: "calculate_keyword_fallback_score_obj a b = Inr 50"
    if "\<exists>e. keyword_fallback_try a b = Inl e"
    using that by (auto simp: calculate_keyword_fallback_score_obj_def)
  have v: "calculate_keyword_fallback_score_obj a b = Inr n"
    if "keyword_fallback_try a b = Inr n" for n
    using that by (simp add: calculate_keyword_fallback_score_obj_def)
  have o: "\<exists>n. calculate_keyword_fallback_score_obj a b = Inr n \<and> 15 \<le> n \<and> n \<le> 90"
  proof (cases "keyword_fallback_try a b")
    case (Inl err)
    then have "calculate_keyword_fallback_score_obj a b = Inr 50" using e by blast
    then show ?thesis by simp
  next
    case (Inr n)
    with v keyword_fallback_try_range show ?thesis by blast
  qed
  from s o e v show ?thesis by blast
qed

theorem fallback_never_raises_in_range_witness:
  "keyword_fallback_try PyNone (PyStr ''Python developer'') = Inl (no_lower PyNone)
   \<and> calculate_keyword_fallback_score_obj PyNone (PyStr ''Python developer'') = Inr 50
   \<and> keyword_fallback_try (PyStr ''Python developer'') (PyInt 7) = Inl (no_lower (PyInt 7))
   \<and> calculate_keyword_fallback_score_obj (PyStr ''Python developer'') (PyInt 7) = Inr 50
   \<and> keyword_fallback_try (PyStr []) (PyStr []) = Inr 63
   \<and> calculate_keyword_fallback_score_obj (PyStr []) (PyStr []) = Inr 63"
proof -
  have 1: "keyword_fallback_try PyNone (PyStr ''Python developer'') = Inl (no_lower PyNone)"
    by simp
  have 2: "keyword_fallback_try (PyStr ''Python developer'') (PyInt 7)
             = Inl (no_lower (PyInt 7))"
    by simp
  have 3: "keyword_fallback_try (PyStr []) (PyStr []) = Inr 63"
    by code_simp
  from 1 2 3
    fallback_never_raises_in_range [where a = PyNone and b = "PyStr ''Python developer''"]
    fallback_never_raises_in_range [where a = "PyStr ''Python developer''" and b = "PyInt 7"]
    fallback_never_raises_in_range [where a = "PyStr []" and b = "PyStr []"]
  show ?thesis by blast
qed

lemma filter_no_match: "(\<forall>t\<in>set xs. \<not> P t) \<Longrightarrow> filter P xs = []"
  by (induction xs) auto

text \<open>
  C4. When the lower-cased job description contains no term of the technical dictionary
  and no term of the soft-skill dictionary, then for every resume the technical score is
  the default 60, the soft score is the default 70, and the scorer returns 63.
\<close>

theorem fallback_default_63:
  assumes "\<forall>t \<in> set technical_skills \<union> set soft_skills. \<not> py_in t (py_lower job_description)"
  shows "technical_score resume_text job_description = 60
       \<and> soft_score resume_text job_description = 70
       \<and> calculate_keyword_fallback_score resume_text job_description = Inr 63"
proof -
  have t: "jd_technical job_description = []"
    unfolding jd_technical_def using assms by (intro filter_no_match) simp
  have s: "jd_soft job_description = []"
    unfolding jd_soft_def using assms by (intro filter_no_match) simp
  have ts: "technical_score resume_text job_description = 60"
    by (simp add: technical_score_def t)
  have ss: "soft_score resume_text job_description = 70"
    by (simp add: soft_score_def s)
  have "weighted_score resume_text job_description = 63"
    by (simp add: weighted_score_def ts ss)
  then have "calculate_keyword_fallback_score resume_text job_description = Inr 63"
    by (simp add: calculate_keyword_fallback_score_eq trunc_toward_zero_def)
  with ts ss show ?thesis by simp
qed

theorem fallback_default_63_witness:
  "jd_technical [] = [] \<and> jd_soft [] = []
   \<and> technical_score ''Python and React'' [] = 60
   \<and> soft_score ''Python and React'' [] = 70
   \<and> calculate_keyword_fallback_score ''Python and React'' [] = Inr 63"
proof -
  have h: "\<forall>t \<in> set technical_skills \<union> set soft_skills. \<not> py_in t (py_lower [])"
    by code_simp
  have "jd_technical [] = []" "jd_soft [] = []"
    by code_simp+
  with fallback_default_63 [OF h, of "''Python and React''"] show ?thesis by simp
qed

lemma scenario_jd_technical: "jd_technical scenario_jd = [''python'', ''react'', ''r'']"
  by code_simp

lemma scenario_jd_soft: "jd_soft scenario_jd = [''leadership'']"
  by code_simp

lemma scenario_resume_technical:
  "resume_technical scenario_resume scenario_jd = [''python'', ''react'', ''r'']"
  unfolding resume_technical_def scenario_jd_technical by code_simp

lemma scenario_resume_soft: "resume_soft scenario_resume scenario_jd = [''leadership'']"
  unfolding resume_soft_def scenario_jd_soft by code_simp

text \<open>
  C5. On the scenario's resume and job description the fallback scorer computes a
  technical score of 100, a soft score of 100 and a weighted score of 100, and returns 90.
\<close>

theorem fallback_concrete_scenario:
  "technical_score scenario_resume scenario_jd = 100
   \<and> soft_score scenario_resume scenario_jd = 100
   \<and> weighted_score scenario_resume scenario_jd = 100
   \<and> calculate_keyword_fallback_score scenario_resume scenario_jd = Inr 90"
proof -
  have t: "technical_score scenario_resume scenario_jd = 100"
    by (simp add: technical_score_def scenario_jd_technical scenario_resume_technical)
  have s: "soft_score scenario_resume scenario_jd = 100"
    by (simp add: soft_score_def scenario_jd_soft scenario_resume_soft)
  have w: "weighted_score scenario_resume scenario_jd = 100"
    by (simp add: weighted_score_def t s)
  have "calculate_keyword_fallback_score scenario_resume scenario_jd = Inr 90"
    by (simp add: calculate_keyword_fallback_score_eq w trunc_toward_zero_def)
  with t s w show ?thesis by simp
qed

lemma ratio_score_range:
  assumes "m \<le> n"
  shows "0 \<le> real m / real (max n 1) * 100 \<and> real m / real (max n 1) * 100 \<le> 100"
proof -
  have "real m \<le> real (max n 1)" using assms by simp
  moreover have "0 < real (max n 1)" by simp
  ultimately have "real m / real (max n 1) \<le> 1"
    by (simp only: divide_le_eq_1_pos)
  then have "real m / real (max n 1) * 100 \<le> 1 * 100"
    by (rule mult_right_mono) simp
  moreover have "0 \<le> real m / real (max n 1) * 100"
    by (intro mult_nonneg_nonneg divide_nonneg_nonneg) simp_all
  ultimately show ?thesis by simp
qed

lemma technical_score_range:
  "0 \<le> technical_score r j \<and> technical_score r j \<le> 100"
proof (cases "jd_technical j = []")
  case True
  then show ?thesis by (simp add: technical_score_def)
next
  case False
  have "length (resume_technical r j) \<le> length (jd_technical j)"
    by (simp add: resume_technical_def)
  from ratio_score_range [OF this] False show ?thesis
    by (simp add: technical_score_def)
qed

lemma soft_score_range:
  "0 \<le> soft_score r j \<and> soft_score r j \<le> 100"
proof (cases "jd_soft j = []")
  case True
  then show ?thesis by (simp add: soft_score_def)
next
  case False
  have "length (resume_soft r j) \<le> length (jd_soft j)"
    by (simp add: resume_soft_def)
  from ratio_score_range [OF this] False show ?thesis
    by (simp add: soft_score_def)
qed

lemma filter_agree: "(\<forall>t\<in>set xs. P t = Q t) \<Longrightarrow> filter P xs = filter Q xs"
  by (induction xs) auto

text \<open>
  C10. The terms matched in the resume are among the terms matched in the job description,
  for each dictionary, so both partial scores lie between 0 and 100. Two resumes that agree
  on which of the job description's matched terms they contain get the same fallback score:
  a dictionary term that the job description lacks has no influence.
\<close>

theorem fallback_ignores_terms_absent_from_jd:
  "set (resume_technical r j) \<subseteq> set (jd_technical j)
   \<and> set (resume_soft r j) \<subseteq> set (jd_soft j)
   \<and> 0 \<le> technical_score r j \<and> technical_score r j \<le> 100
   \<and> 0 \<le> soft_score r j \<and> soft_score r j \<le> 100
   \<and> ((\<forall>t \<in> set (jd_technical j) \<union> set (jd_soft j).
          py_in t (py_lower r) = py_in t (py_lower r'))
        \<longrightarrow> calculate_keyword_fallback_score r j = calculate_keyword_fallback_score r' j)"
proof -
  have sub: "set (resume_technical r j) \<subseteq> set (jd_technical j)"
    "set (resume_soft r j) \<subseteq> set (jd_soft j)"
    by (simp_all add: resume_technical_def resume_soft_def)
  have eq: "calculate_keyword_fallback_score r j = calculate_keyword_fallback_score r' j"
    if h: "\<forall>t \<in> set (jd_technical j) \<union> set (jd_soft j).
             py_in t (py_lower r) = py_in t (py_lower r')"
  proof -
    have "resume_technical r j = resume_technical r' j"
      unfolding resume_technical_def using h by (intro filter_agree) simp
    moreover have "resume_soft r j = resume_soft r' j"
      unfolding resume_soft_def using h by (intro filter_agree) simp
    ultimately have "weighted_score r j = weighted_score r' j"
      by (simp add: weighted_score_def technical_score_def soft_score_def)
    then show ?thesis by (simp add: calculate_keyword_fallback_score_eq)
  qed
  from sub technical_score_range [of r j] soft_score_range [of r j] eq show ?thesis
    by blast
qed

theorem fallback_ignores_terms_absent_from_jd_witness:
  "jd_technical ''Python and leadership'' = [''python'', ''r'']
   \<and> jd_soft ''Python and leadership'' = [''leadership'']
   \<and> calculate_keyword_fallback_score ''python leader'' ''Python and leadership''
       = calculate_keyword_fallback_score ''python leader, java, docker''
           ''Python and leadership''"
proof -
  have t: "jd_technical ''Python and leadership'' = [''python'', ''r'']"
    by code_simp
  have s: "jd_soft ''Python and leadership'' = [''leadership'']"
    by code_simp
  have h: "\<forall>t \<in> set (jd_technical ''Python and leadership'')
                  \<union> set (jd_soft ''Python and leadership'').
      py_in t (py_lower ''python leader'')
        = py_in t (py_lower ''python leader, java, docker'')"
    unfolding t s by code_simp
  from fallback_ignores_terms_absent_from_jd
         [of "''python leader''" "''Python and leadership''"
             "''python leader, java, docker''"] h t s
  show ?thesis by blast
qed

section \<open>Properties of the feedback mapper\<close>

text \<open>
  C7. The feedback mapper is defined on every integer score and sorts the scores into
  five bands with inclusive lower bounds: 80 and above is Excellent, 65 to 79 is Good,
  45 to 64 is Moderate, 25 to 44 is Low, below 25 is Very low. Every score of a band gets
  the feedback of the band's bound, and the five feedbacks differ from each other. In
  particular 80 is Excellent, 79 is Good, 45 is Moderate and 24 is Very low.
\<close>

theorem feedback_bands:
  "(80 \<le> score \<longrightarrow> get_score_feedback score = get_score_feedback 80)
   \<and> (65 \<le> score \<and> score \<le> 79 \<longrightarrow> get_score_feedback score = get_score_feedback 65)
   \<and> (45 \<le> score \<and> score \<le> 64 \<longrightarrow> get_score_feedback score = get_score_feedback 45)
   \<and> (25 \<le> score \<and> score \<le> 44 \<longrightarrow> get_score_feedback score = get_score_feedback 25)
   \<and> (score < 25 \<longrightarrow> get_score_feedback score = get_score_feedback 24)
   \<and> distinct [get_score_feedback 80, get_score_feedback 65, get_score_feedback 45,
                 get_score_feedback 25, get_score_feedback 24]
   \<and> tier_of (get_score_feedback 80) = Some Excellent
   \<and> tier_of (get_score_feedback 79) = Some Good
   \<and> tier_of (get_score_feedback 65) = Some Good
   \<and> tier_of (get_score_feedback 45) = Some Moderate
   \<and> tier_of (get_score_feedback 25) = Some Low
   \<and> tier_of (get_score_feedback 24) = Some Very_low"
  by (simp add: get_score_feedback_def tier_of_def)

theorem feedback_bands_witness:
  "get_score_feedback 95 = get_score_feedback 80
   \<and> get_score_feedback 70 = get_score_feedback 65
   \<and> get_score_feedback 63 = get_score_feedback 45
   \<and> get_score_feedback 30 = get_score_feedback 25
   \<and> get_score_feedback 10 = get_score_feedback 24"
  using feedback_bands [of 95] feedback_bands [of 70] feedback_bands [of 63]
    feedback_bands [of 30] feedback_bands [of 10]
  by simp

section \<open>Properties of segmentation\<close>

lemma py_split_nonempty: "py_split sep s \<noteq> []"
  by (induction s) (auto split: list.splits)

lemma py_join_Cons_head: "py_join sep ((c # w) # ws) = c # py_join sep (w # ws)"
  by (cases ws) simp_all

lemma py_join_split: "py_join sep (py_split sep s) = s"
proof (induction s)
  case Nil
  show ?case by simp
next
  case (Cons c cs)
  obtain w ws where ws: "py_split sep cs = w # ws"
    using py_split_nonempty [of sep cs] by (cases "py_split sep cs") auto
  show ?case
  proof (cases "c = sep")
    case True
    with Cons ws show ?thesis by simp
  next
    case False
    with Cons ws show ?thesis by (simp add: py_join_Cons_head)
  qed
qed

lemma py_split_no_sep: "p \<in> set (py_split sep s) \<Longrightarrow> sep \<notin> set p"
proof (induction s arbitrary: p)
  case Nil
  then show ?case by simp
next
  case (Cons c cs)
  obtain w ws where ws: "py_split sep cs = w # ws"
    using py_split_nonempty [of sep cs] by (cases "py_split sep cs") auto
  have w: "sep \<notin> set w" and rest: "\<forall>q\<in>set ws. sep \<notin> set q"
    using Cons.IH ws by auto
  show ?case
  proof (cases "c = sep")
    case True
    with Cons.prems ws w rest show ?thesis by auto
  next
    case False
    with Cons.prems ws w rest show ?thesis by auto
  qed
qed

lemma py_split_length: "length (py_split sep s) = Suc (length (filter (\<lambda>c. c = sep) s))"
proof (induction s)
  case Nil
  show ?case by simp
next
  case (Cons c cs)
  obtain w ws where ws: "py_split sep cs = w # ws"
    using py_split_nonempty [of sep cs] by (cases "py_split sep cs") auto
  with Cons show ?case by auto
qed

lemma py_strip_decomp:
  "\<exists>a b. s = a @ py_strip s @ b \<and> list_all is_space a \<and> list_all is_space b"
proof -
  let ?t = "dropWhile is_space s"
  let ?u = "dropWhile is_space (rev ?t)"
  have 1: "s = takeWhile is_space s @ ?t" by simp
  have "rev (takeWhile is_space (rev ?t) @ ?u) = rev (rev ?t)"
    by (simp only: takeWhile_dropWhile_id)
  then have 2: "?t = rev ?u @ rev (takeWhile is_space (rev ?t))"
    by (simp only: rev_append rev_rev_ident)
  have 3: "list_all is_space (takeWhile is_space s)"
    by (simp add: list_all_iff) (meson set_takeWhileD)
  have 4: "list_all is_space (rev (takeWhile is_space (rev ?t)))"
    by (simp add: list_all_iff) (meson set_takeWhileD)
  have "s = takeWhile is_space s @ py_strip s @ rev (takeWhile is_space (rev ?t))"
    unfolding py_strip_def using 1 2 by metis
  with 3 4 show ?thesis by blast
qed

lemma last_dropWhile: "dropWhile P xs \<noteq> [] \<Longrightarrow> last (dropWhile P xs) = last xs"
  by (induction xs) (auto split: if_splits)

lemma py_strip_ends:
  assumes "py_strip s \<noteq> []"
  shows "\<not> is_space (hd (py_strip s)) \<and> \<not> is_space (last (py_strip s))"
proof -
  let ?t = "dropWhile is_space s"
  let ?u = "dropWhile is_space (rev ?t)"
  have u: "?u \<noteq> []" using assms by (simp add: py_strip_def)
  then have l: "\<not> is_space (hd ?u)" by (rule hd_dropWhile)
  have t: "?t \<noteq> []"
  proof
    assume "?t = []"
    then have "rev ?t = []" by (simp only: rev.simps)
    then have "?u = []" by (simp only: dropWhile.simps)
    with u show False by simp
  qed
  then have ht: "\<not> is_space (hd ?t)" by (rule hd_dropWhile)
  have "last (py_strip s) = hd ?u" using u by (simp add: py_strip_def last_rev)
  moreover have "hd (py_strip s) = last ?u" using u by (simp add: py_strip_def hd_rev)
  moreover have "last ?u = last (rev ?t)"
    using u by (rule last_dropWhile)
  moreover have "last (rev ?t) = hd ?t" using t by (simp add: last_rev)
  ultimately show ?thesis using l ht by simp
qed

lemma comprehension_filter_map:
  "concat (map (\<lambda>x. if P (f x) then [f x] else []) xs) = filter P (map f xs)"
  by (induction xs) simp_all

lemma sentences_filter_map:
  "sentences text = [s \<leftarrow> map py_strip (py_split CHR ''.'' text). 10 < length s]"
  unfolding sentences_def by (rule comprehension_filter_map)

text \<open>
  C6. Segmentation splits the text at every period (joining the pieces with periods gives
  the text back, and no piece contains a period), strips the ASCII whitespace around each
  piece and keeps the stripped pieces longer than 10 characters. When fewer than 3 remain
  the result is the single unit consisting of the unmodified input, so the empty text
  gives one empty unit; otherwise the result is the kept pieces. The function is total.
\<close>

theorem segmentation:
  "py_join CHR ''.'' (py_split CHR ''.'' text) = text
   \<and> (\<forall>p \<in> set (py_split CHR ''.'' text). CHR ''.'' \<notin> set p
         \<and> (\<exists>a b. p = a @ py_strip p @ b \<and> list_all is_space a \<and> list_all is_space b)
         \<and> (py_strip p \<noteq> [] \<longrightarrow>
               \<not> is_space (hd (py_strip p)) \<and> \<not> is_space (last (py_strip p))))
   \<and> sentences text = [s \<leftarrow> map py_strip (py_split CHR ''.'' text). 10 < length s]
   \<and> (length (sentences text) < 3 \<longrightarrow> segment text = [text])
   \<and> (3 \<le> length (sentences text) \<longrightarrow> segment text = sentences text)
   \<and> segment [] = [[]]"
proof -
  have e: "segment [] = [[]]"
    by (simp add: segment_def sentences_def py_strip_def)
  have p: "\<forall>p \<in> set (py_split CHR ''.'' text). CHR ''.'' \<notin> set p
         \<and> (\<exists>a b. p = a @ py_strip p @ b \<and> list_all is_space a \<and> list_all is_space b)
         \<and> (py_strip p \<noteq> [] \<longrightarrow>
               \<not> is_space (hd (py_strip p)) \<and> \<not> is_space (last (py_strip p)))"
    using py_split_no_sep py_strip_decomp py_strip_ends by blast
  have s: "length (sentences text) < 3 \<longrightarrow> segment text = [text]"
    "3 \<le> length (sentences text) \<longrightarrow> segment text = sentences text"
    by (simp_all add: segment_def)
  from py_join_split [of "CHR ''.''" "text"] p sentences_filter_map [of "text"] s e
  show ?thesis by blast
qed

theorem segmentation_witness:
  "segment ''Senior Python developer. Remote.'' = [''Senior Python developer. Remote.'']
   \<and> segment '' Built data pipelines.  Led a team of five. ok. Shipped three products''
       = [''Built data pipelines'', ''Led a team of five'', ''Shipped three products'']"
proof -
  have 1: "length (sentences ''Senior Python developer. Remote.'') < 3"
    by code_simp
  have 2: "sentences '' Built data pipelines.  Led a team of five. ok. Shipped three products''
       = [''Built data pipelines'', ''Led a team of five'', ''Shipped three products'']"
    by code_simp
  from 2 have 3:
    "3 \<le> length (sentences '' Built data pipelines.  Led a team of five. ok. Shipped three products'')"
    by simp
  from segmentation [of "''Senior Python developer. Remote.''"] 1
    segmentation [of "'' Built data pipelines.  Led a team of five. ok. Shipped three products''"] 2 3
  show ?thesis by simp
qed


section \<open>Properties of the semantic scorer\<close>

lemma list_max_Max: "row \<noteq> [] \<Longrightarrow> list_max row = Max (set row)"
proof (cases row)
  case Nil
  assume "row \<noteq> []"
  with Nil show ?thesis by simp
next
  case (Cons x xs)
  have "Max (set (x # xs)) = fold max xs x" by (rule Max.set_eq_fold)
  with Cons show ?thesis by (simp only: list_max.simps)
qed

lemma np_max_axis1_Inr:
  "np_max_axis1 m = Inr xs \<Longrightarrow> [] \<notin> set m \<and> xs = map (\<lambda>row. Max (set row)) m"
proof -
  assume a: "np_max_axis1 m = Inr xs"
  then have n: "[] \<notin> set m" and x: "xs = map list_max m"
    by (auto simp: np_max_axis1_def split: if_splits)
  have "map list_max m = map (\<lambda>row. Max (set row)) m"
  proof (rule map_cong [OF refl])
    fix row assume "row \<in> set m"
    with n have "row \<noteq> []" by auto
    then show "list_max row = Max (set row)" by (rule list_max_Max)
  qed
  with n x show ?thesis by simp
qed

lemma trunc_toward_zero_bounds:
  "\<bar>real_of_int (trunc_toward_zero x)\<bar> \<le> \<bar>x\<bar>
   \<and> \<bar>x\<bar> < \<bar>real_of_int (trunc_toward_zero x)\<bar> + 1
   \<and> 0 \<le> real_of_int (trunc_toward_zero x) * x"
proof (cases "0 \<le> x")
  case True
  then have "0 \<le> \<lfloor>x\<rfloor>" by simp
  with True show ?thesis
    by (simp add: trunc_toward_zero_def)
next
  case False
  then have "\<lceil>x\<rceil> \<le> 0" by (simp add: ceiling_le_zero)
  with False show ?thesis
    by (simp add: trunc_toward_zero_def mult_nonpos_nonpos) linarith
qed

text \<open>
  C1, as amended. Whenever the embedding path succeeds, the model loaded, both unit
  sequences were encoded, and the similarity matrix has at least one row and no empty row.
  The score is the float product with 100 of numpy's float mean of the row maxima,
  truncated toward zero (not rounded), then clamped to 10..95. Truncation toward zero
  yields the integer of the same sign whose magnitude is the largest not exceeding the
  magnitude of the product. Whenever that mean and that product are exact, the score is
  the arithmetic mean of the row maxima times 100, truncated toward zero and clamped.
\<close>

theorem semantic_score_truncates:
  assumes "semantic_body B resume_text job_description = Inr score"
  shows "\<exists>model resume_embeddings jd_embeddings m p.
           load_sentence_transformer B = Inr model
         \<and> model (segment resume_text) = Inr resume_embeddings
         \<and> model (segment job_description) = Inr jd_embeddings
         \<and> cosine_similarity B resume_embeddings jd_embeddings = Inr m
         \<and> m \<noteq> [] \<and> [] \<notin> set m
         \<and> p = float_times B (float_mean B (map (\<lambda>row. Max (set row)) m)) 100
         \<and> score = max 10 (min 95 (trunc_toward_zero p))
         \<and> \<bar>real_of_int (trunc_toward_zero p)\<bar> \<le> \<bar>p\<bar>
         \<and> \<bar>p\<bar> < \<bar>real_of_int (trunc_toward_zero p)\<bar> + 1
         \<and> 0 \<le> real_of_int (trunc_toward_zero p) * p
         \<and> (float_mean B (map (\<lambda>row. Max (set row)) m) = overall_similarity m
              \<and> float_times B (overall_similarity m) 100 = overall_similarity m * 100
             \<longrightarrow> score = max 10 (min 95 (trunc_toward_zero (overall_similarity m * 100))))"
proof -
  from assms obtain model where 1: "load_sentence_transformer B = Inr model"
    by (auto simp: semantic_body_def split: sum.splits)
  from assms 1 obtain re where 2: "model (segment resume_text) = Inr re"
    by (auto simp: semantic_body_def split: sum.splits)
  from assms 1 2 obtain je where 3: "model (segment job_description) = Inr je"
    by (auto simp: semantic_body_def split: sum.splits)
  from assms 1 2 3 obtain m where 4: "cosine_similarity B re je = Inr m"
    by (auto simp: semantic_body_def split: sum.splits)
  from assms 1 2 3 4 obtain xs where 5: "np_max_axis1 m = Inr xs"
    by (auto simp: semantic_body_def split: sum.splits)
  from assms 1 2 3 4 5 obtain q where
    6: "py_int (map_option (\<lambda>v. float_times B v 100) (np_mean B xs)) = Inr q"
    and 7: "score = max 10 (min 95 q)"
    by (auto simp: semantic_body_def split: sum.splits)
  from 5 have 8: "[] \<notin> set m" and 9: "xs = map (\<lambda>row. Max (set row)) m"
    using np_max_axis1_Inr by blast+
  from 6 have 10: "xs \<noteq> []"
    by (auto simp: py_int_def np_mean_def split: if_splits)
  with 9 have 11: "m \<noteq> []" by auto
  define p where "p = float_times B (float_mean B (map (\<lambda>row. Max (set row)) m)) 100"
  from 10 have "np_mean B xs = Some (float_mean B xs)"
    by (simp add: np_mean_def)
  with 6 9 have "q = trunc_toward_zero p"
    by (simp add: py_int_def p_def)
  with 7 have 12: "score = max 10 (min 95 (trunc_toward_zero p))"
    by simp
  have 13: "score = max 10 (min 95 (trunc_toward_zero (overall_similarity m * 100)))"
    if "float_mean B (map (\<lambda>row. Max (set row)) m) = overall_similarity m"
      and "float_times B (overall_similarity m) 100 = overall_similarity m * 100"
    using that 12 by (simp add: p_def)
  from 1 2 3 4 8 11 12 13 p_def trunc_toward_zero_bounds [of p]
  show ?thesis by blast
qed

lemma three_unit_segments:
  "segment three_unit_resume
     = [''Built data pipelines in Python'', ''Led a team of five engineers'',
        ''Shipped three products'']
   \<and> segment three_unit_jd
     = [''We need a Python developer'', ''You will lead a small team'',
        ''You will ship products'']"
  by code_simp

lemma three_unit_semantic_body:
  "semantic_body (float32_backend three_unit_matrix) three_unit_resume three_unit_jd = Inr 75"
  by code_simp

lemma three_unit_overall: "overall_similarity three_unit_matrix = 0.7578125"
  by (simp add: overall_similarity_def three_unit_matrix_def)

lemma three_unit_exact:
  "float_mean (float32_backend three_unit_matrix)
       (map (\<lambda>row. Max (set row)) three_unit_matrix) = 0.7578125
   \<and> float_times (float32_backend three_unit_matrix) 0.7578125 100 = 0.7578125 * 100"
  by code_simp

theorem semantic_score_truncates_witness:
  "semantic_body (float32_backend three_unit_matrix) three_unit_resume three_unit_jd = Inr 75
   \<and> overall_similarity three_unit_matrix * 100 = 75.78125
   \<and> (75::int) = max 10 (min 95 (trunc_toward_zero (overall_similarity three_unit_matrix * 100)))"
proof -
  from semantic_score_truncates [OF three_unit_semantic_body]
  obtain model re je m where
    c: "cosine_similarity (float32_backend three_unit_matrix) re je = Inr m"
    and i: "float_mean (float32_backend three_unit_matrix) (map (\<lambda>row. Max (set row)) m)
              = overall_similarity m
            \<and> float_times (float32_backend three_unit_matrix) (overall_similarity m) 100
              = overall_similarity m * 100
          \<longrightarrow> (75::int) = max 10 (min 95 (trunc_toward_zero (overall_similarity m * 100)))"
    by blast
  from c have m: "m = three_unit_matrix"
    by (simp add: float32_backend_def)
  from i three_unit_exact have s:
    "(75::int) = max 10 (min 95 (trunc_toward_zero (overall_similarity three_unit_matrix * 100)))"
    unfolding m three_unit_overall by blast
  have p: "overall_similarity three_unit_matrix * 100 = 75.78125"
    unfolding three_unit_overall by simp
  from three_unit_semantic_body p s show ?thesis by blast
qed

text \<open>
  C1, as stated, fails. On the two texts of three units each, with the matrix above, the
  embedding path succeeds and the score is 75; the mean of the row maxima is 0.7578125,
  and rounding the percentage 75.78125 gives 76.
\<close>

theorem semantic_score_rounds_counterexample:
  "semantic_body (float32_backend three_unit_matrix) three_unit_resume three_unit_jd = Inr 75
   \<and> length (segment three_unit_resume) = 3
   \<and> length (segment three_unit_jd) = 3
   \<and> overall_similarity three_unit_matrix * 100 = 75.78125
   \<and> spec_semantic_score three_unit_matrix = 76"
proof -
  have "spec_semantic_score three_unit_matrix = 76"
    unfolding spec_semantic_score_def three_unit_overall by (simp add: round_def)
  moreover have "overall_similarity three_unit_matrix * 100 = 75.78125"
    unfolding three_unit_overall by simp
  moreover have "length (segment three_unit_resume) = 3" "length (segment three_unit_jd) = 3"
    using three_unit_segments by simp_all
  ultimately show ?thesis using three_unit_semantic_body by blast
qed

text \<open>
  Where the float product rounds, the score follows the float, not the exact product: the
  single-precision float nearest to 0.29 lies below 0.29, its exact product with 100 lies
  below 29, and its single-precision product with 100 is 29.
\<close>

lemma float_product_decides:
  "semantic_body (float32_backend near_029_matrix) ''python developer'' ''java developer''
     = Inr 29
   \<and> trunc_toward_zero (overall_similarity near_029_matrix * 100) = 28"
proof -
  have "semantic_body (float32_backend near_029_matrix) ''python developer''
          ''java developer'' = Inr 29"
    by code_simp
  moreover have o: "overall_similarity near_029_matrix = 9730785 / 33554432"
    by (simp add: overall_similarity_def near_029_matrix_def)
  have "trunc_toward_zero (overall_similarity near_029_matrix * 100) = 28"
    unfolding o by (simp add: trunc_toward_zero_def)
  ultimately show ?thesis by blast
qed

lemma semantic_body_range:
  "semantic_body B r j = Inr n \<Longrightarrow> 10 \<le> n \<and> n \<le> 95"
  by (auto simp: semantic_body_def split: sum.splits)

text \<open>
  C2. For every backend and every pair of input strings the public scoring operation
  returns an integer and never raises. Either the embedding path succeeded and the result
  is its score, between 10 and 95; or the embedding path raised, at any of its steps, and
  the result is that of the keyword fallback scorer, between 15 and 90.
\<close>

theorem compute_match_score_total:
  "\<exists>n. snd (calculate_semantic_similarity B r j) = Inr n
       \<and> ((semantic_body B r j = Inr n \<and> 10 \<le> n \<and> n \<le> 95)
            \<or> ((\<exists>e. semantic_body B r j = Inl e)
                \<and> calculate_keyword_fallback_score r j = Inr n \<and> 15 \<le> n \<and> n \<le> 90))"
proof (cases "semantic_body B r j")
  case (Inl e)
  obtain n where "calculate_keyword_fallback_score r j = Inr n" "15 \<le> n" "n \<le> 90"
    by (simp add: calculate_keyword_fallback_score_eq)
  with Inl show ?thesis by (auto simp: calculate_semantic_similarity_def)
next
  case (Inr n)
  with semantic_body_range [OF Inr] show ?thesis
    by (simp add: calculate_semantic_similarity_def)
qed

text \<open>An instance: the model fails to load, the message is shown and the fallback scores.\<close>

lemma failing_backend_falls_back:
  "calculate_semantic_similarity failing_backend scenario_resume scenario_jd
     = ([''Error in semantic analysis: model unavailable''], Inr 90)"
  by code_simp


section \<open>Properties of the LLM feedback generator\<close>

lemma starts_with_length: "starts_with s h \<Longrightarrow> length h \<le> length s"
  by (induction s h rule: starts_with.induct) auto

lemma re_search_section_short:
  "length s < length header \<Longrightarrow> re_search_section header next s = None"
proof (induction s)
  case Nil
  show ?case by simp
next
  case (Cons c cs)
  from Cons.prems have "\<not> starts_with (c # cs) header"
    using starts_with_length [of "c # cs" header] by auto
  moreover from Cons.prems have "length cs < length header" by simp
  ultimately show ?case using Cons.IH by simp
qed

lemma re_search_section_after_first:
  "header \<noteq> [] \<Longrightarrow>
   re_search_section header next s =
     (case after_first header s of
        None \<Rightarrow> None
      | Some [] \<Rightarrow> None
      | Some (d # ds) \<Rightarrow> Some (d # lazy_until (lookahead next) ds))"
proof (induction s)
  case Nil
  then show ?case by simp
next
  case (Cons c cs)
  show ?case
  proof (cases "starts_with (c # cs) header")
    case False
    with Cons show ?thesis by simp
  next
    case True
    show ?thesis
    proof (cases "drop (length header) (c # cs)")
      case Nil
      then have "length (c # cs) \<le> length header" by simp
      moreover from Cons.prems have "0 < length header" by simp
      ultimately have "length cs < length header" by simp
      then have "re_search_section header next cs = None"
        by (rule re_search_section_short)
      with True Nil show ?thesis by simp
    next
      case (Cons d ds)
      with True show ?thesis by simp
    qed
  qed
qed

lemma lazy_until_lookahead:
  "\<exists>t. (t = [] \<or> t = [CHR 0x0A])
     \<and> lazy_until (next_starts next) s = lazy_until (lookahead next) s @ t"
proof (induction s)
  case Nil
  show ?case by simp
next
  case (Cons c cs)
  show ?case
  proof (cases "next_starts next (c # cs)")
    case True
    then show ?thesis by (simp add: lookahead_def)
  next
    case False
    show ?thesis
    proof (cases "at_end (c # cs)")
      case True
      with False show ?thesis by (simp add: lookahead_def at_end_def)
    next
      case no_end: False
      from False no_end have nl: "\<not> lookahead next (c # cs)"
        by (simp add: lookahead_def)
      from Cons.IH obtain t where "t = [] \<or> t = [CHR 0x0A]"
        "lazy_until (next_starts next) cs = lazy_until (lookahead next) cs @ t"
        by blast
      with False nl show ?thesis by simp
    qed
  qed
qed

lemma py_strip_snoc_space: "is_space w \<Longrightarrow> py_strip (x @ [w]) = py_strip x"
proof (cases "\<forall>c\<in>set x. is_space c")
  case True
  assume w: "is_space w"
  from True have "dropWhile is_space x = []" by simp
  moreover from True w have "dropWhile is_space (x @ [w]) = []" by simp
  ultimately show ?thesis by (simp only: py_strip_def)
next
  case False
  assume w: "is_space w"
  from False have "dropWhile is_space (x @ [w]) = dropWhile is_space x @ [w]"
    by (simp add: dropWhile_append)
  with w show ?thesis by (simp add: py_strip_def)
qed

lemma is_space_newline: "is_space (CHR 0x0A)"
  by (simp add: is_space_def)

lemma group_matches_section:
  assumes "\<not> next_starts next (d # ds)"
  shows "py_strip (d # lazy_until (lookahead next) ds) = py_strip (before_next next (d # ds))"
proof -
  obtain t where t: "t = [] \<or> t = [CHR 0x0A]"
    and eq: "lazy_until (next_starts next) ds = lazy_until (lookahead next) ds @ t"
    using lazy_until_lookahead by blast
  have "before_next next (d # ds) = (d # lazy_until (lookahead next) ds) @ t"
    using assms eq by (simp add: before_next_def)
  moreover have "py_strip ((d # lazy_until (lookahead next) ds) @ t)
      = py_strip (d # lazy_until (lookahead next) ds)"
  proof (cases "t = []")
    case True
    then show ?thesis by simp
  next
    case False
    with t have "t = [CHR 0x0A]" by simp
    then show ?thesis
      by (simp only: py_strip_snoc_space [OF is_space_newline])
  qed
  ultimately show ?thesis by simp
qed

lemma group_or_delimited:
  assumes "header \<noteq> []"
  shows "section_delimited header next dflt result
           (Some (group_or (re_search_section header next result) dflt))"
proof (cases "after_first header result")
  case None
  then show ?thesis
    by (simp add: section_delimited_def group_or_def re_search_section_after_first [OF assms])
next
  case (Some rest)
  show ?thesis
  proof (cases rest)
    case Nil
    with Some show ?thesis
      by (simp add: section_delimited_def group_or_def
          re_search_section_after_first [OF assms])
  next
    case (Cons d ds)
    with Some show ?thesis
      by (simp add: section_delimited_def group_or_def
          re_search_section_after_first [OF assms] group_matches_section)
  qed
qed

lemma parse_analysis_result_eq:
  "parse_analysis_result result =
     [''skills_match'' \<mapsto>
        group_or (re_search_section ''Skills Match:'' (Some ''Missing Skills:'') result)
          ''Analysis completed'',
      ''missing_skills'' \<mapsto>
        group_or (re_search_section ''Missing Skills:'' (Some ''Improvement Tips:'') result)
          ''See full analysis'',
      ''improvement_tips'' \<mapsto>
        group_or (re_search_section ''Improvement Tips:'' (Some ''Overall Score:'') result)
          (take 500 result),
      ''overall_score'' \<mapsto>
        group_or (re_search_section ''Overall Score:'' (Some ''Strengths:'') result) ''N/A'',
      ''strengths'' \<mapsto>
        group_or (re_search_section ''Strengths:'' (Some ''Weaknesses:'') result)
          ''Analysis completed'',
      ''weaknesses'' \<mapsto>
        group_or (re_search_section ''Weaknesses:'' None result) ''See improvement tips'']"
  by (simp add: parse_analysis_result_def parse_body_def)

text \<open>
  C8, as amended. For every input string the parser returns, without raising, a dictionary
  with exactly the six keys. For each section, in the fixed order skills match, missing
  skills, improvement tips, overall score, strengths, weaknesses: when its header does not
  occur in the text, or first occurs at the very end of the text, the entry is the
  section's default, which is a fixed text for five sections and the first 500 characters
  of the input for the improvement tips; when the text after the first occurrence of its
  header is not empty and does not begin with the header of the section that follows it
  in the fixed order, the entry is the stripped text from there up to the first occurrence
  of that following header, or up to the end of the text when there is none (for
  weaknesses, always up to the end).
\<close>

theorem parse_sections:
  "(\<exists>analysis. parse_body result = Inr analysis)
   \<and> dom (parse_analysis_result result)
       = {''skills_match'', ''missing_skills'', ''improvement_tips'', ''overall_score'',
          ''strengths'', ''weaknesses''}
   \<and> section_delimited ''Skills Match:'' (Some ''Missing Skills:'') ''Analysis completed''
        result (parse_analysis_result result ''skills_match'')
   \<and> section_delimited ''Missing Skills:'' (Some ''Improvement Tips:'') ''See full analysis''
        result (parse_analysis_result result ''missing_skills'')
   \<and> section_delimited ''Improvement Tips:'' (Some ''Overall Score:'') (take 500 result)
        result (parse_analysis_result result ''improvement_tips'')
   \<and> section_delimited ''Overall Score:'' (Some ''Strengths:'') ''N/A''
        result (parse_analysis_result result ''overall_score'')
   \<and> section_delimited ''Strengths:'' (Some ''Weaknesses:'') ''Analysis completed''
        result (parse_analysis_result result ''strengths'')
   \<and> section_delimited ''Weaknesses:'' None ''See improvement tips''
        result (parse_analysis_result result ''weaknesses'')"
proof -
  have b: "\<exists>analysis. parse_body result = Inr analysis"
    by (simp add: parse_body_def)
  have d: "dom (parse_analysis_result result)
       = {''skills_match'', ''missing_skills'', ''improvement_tips'', ''overall_score'',
          ''strengths'', ''weaknesses''}"
    unfolding parse_analysis_result_eq by auto
  have 1: "parse_analysis_result result ''skills_match'' = Some (group_or
      (re_search_section ''Skills Match:'' (Some ''Missing Skills:'') result)
      ''Analysis completed'')"
    unfolding parse_analysis_result_eq by simp
  have 2: "parse_analysis_result result ''missing_skills'' = Some (group_or
      (re_search_section ''Missing Skills:'' (Some ''Improvement Tips:'') result)
      ''See full analysis'')"
    unfolding parse_analysis_result_eq by simp
  have 3: "parse_analysis_result result ''improvement_tips'' = Some (group_or
      (re_search_section ''Improvement Tips:'' (Some ''Overall Score:'') result)
      (take 500 result))"
    unfolding parse_analysis_result_eq by simp
  have 4: "parse_analysis_result result ''overall_score'' = Some (group_or
      (re_search_section ''Overall Score:'' (Some ''Strengths:'') result) ''N/A'')"
    unfolding parse_analysis_result_eq by simp
  have 5: "parse_analysis_result result ''strengths'' = Some (group_or
      (re_search_section ''Strengths:'' (Some ''Weaknesses:'') result)
      ''Analysis completed'')"
    unfolding parse_analysis_result_eq by simp
  have 6: "parse_analysis_result result ''weaknesses'' = Some (group_or
      (re_search_section ''Weaknesses:'' None result) ''See improvement tips'')"
    unfolding parse_analysis_result_eq by simp
  show ?thesis
    unfolding 1 2 3 4 5 6 using b d by (simp add: group_or_delimited)
qed


lemma starts_with_drop: "starts_with s h \<Longrightarrow> s = h @ drop (length h) s"
  by (induction s h rule: starts_with.induct) auto

text \<open>The two functions that word the specification, characterised.\<close>

lemma after_first_Some: "after_first header s = Some rest \<Longrightarrow> \<exists>p. s = p @ header @ rest"
proof (induction s)
  case Nil
  then show ?case by (simp split: if_splits)
next
  case (Cons c cs)
  show ?case
  proof (cases "starts_with (c # cs) header")
    case True
    with Cons.prems have "rest = drop (length header) (c # cs)" by simp
    with starts_with_drop [OF True] have "c # cs = [] @ header @ rest" by simp
    then show ?thesis by blast
  next
    case False
    with Cons.prems have "after_first header cs = Some rest" by simp
    with Cons.IH obtain p where "cs = p @ header @ rest" by blast
    then have "c # cs = (c # p) @ header @ rest" by simp
    then show ?thesis by blast
  qed
qed

lemma after_first_None: "(after_first header s = None) = (\<not> py_in header s)"
  by (induction s) auto

lemma lazy_until_decomp: "\<exists>r. s = lazy_until stop s @ r \<and> (r = [] \<or> stop r)"
  by (induction s) auto

lemma sample_after:
  "after_first ''Skills Match:'' sample_answer = Some (CHR '' '' # drop 14 sample_answer)"
  by code_simp

lemma sample_no_next:
  "\<not> next_starts (Some ''Missing Skills:'') (CHR '' '' # drop 14 sample_answer)"
  by code_simp

lemma sample_content:
  "py_strip (before_next (Some ''Missing Skills:'') (CHR '' '' # drop 14 sample_answer))
     = ''Python, SQL''"
  by code_simp

lemma sample_no_strengths: "after_first ''Strengths:'' sample_answer = None"
  by code_simp

theorem parse_sections_witness:
  "parse_analysis_result sample_answer ''skills_match'' = Some ''Python, SQL''
   \<and> parse_analysis_result sample_answer ''strengths'' = Some ''Analysis completed''"
proof -
  from parse_sections [of sample_answer]
  have 1: "section_delimited ''Skills Match:'' (Some ''Missing Skills:'')
             ''Analysis completed'' sample_answer
             (parse_analysis_result sample_answer ''skills_match'')"
    and 2: "section_delimited ''Strengths:'' (Some ''Weaknesses:'') ''Analysis completed''
             sample_answer (parse_analysis_result sample_answer ''strengths'')"
    by blast+
  from 1 sample_no_next have "parse_analysis_result sample_answer ''skills_match''
      = Some (py_strip (before_next (Some ''Missing Skills:'')
                 (CHR '' '' # drop 14 sample_answer)))"
    by (simp add: section_delimited_def sample_after split: option.splits)
  moreover from 2 have
    "parse_analysis_result sample_answer ''strengths'' = Some ''Analysis completed''"
    by (simp add: section_delimited_def sample_no_strengths split: option.splits)
  ultimately show ?thesis by (simp only: sample_content)
qed

text \<open>
  C8, as stated, fails. Neither \<open>abc\<close> nor \<open>xyz\<close> has the improvement-tips header,
  and the entry is the input itself in each case, so the replacement is not one fixed
  value. In the sample answer the missing-skills entry runs past the overall-score header,
  because only the improvement-tips header delimits it.
\<close>

theorem parse_default_counterexample:
  "re_search_section ''Improvement Tips:'' (Some ''Overall Score:'') ''abc'' = None
   \<and> parse_analysis_result ''abc'' ''improvement_tips'' = Some ''abc''
   \<and> re_search_section ''Improvement Tips:'' (Some ''Overall Score:'') ''xyz'' = None
   \<and> parse_analysis_result ''xyz'' ''improvement_tips'' = Some ''xyz''
   \<and> parse_analysis_result sample_answer ''missing_skills''
       = Some (''Docker'' @ [CHR 0x0A] @ ''Overall Score: 7'')"
  by code_simp

text \<open>
  A header immediately followed by the next header: the lazy group needs one character,
  so the entry is not empty.
\<close>

lemma empty_section_takes_next:
  "parse_analysis_result ''Skills Match:Missing Skills: x'' ''skills_match''
     = Some ''Missing Skills: x''"
  by code_simp

lemma truncate_inputs_take:
  "truncate_inputs resume_text job_description
     = (take 2000 resume_text, take 1000 job_description)"
  by (simp add: truncate_inputs_def)

text \<open>
  C9. The analysis depends on its inputs only through the first 2000 characters of the
  resume and the first 1000 characters of the job description: two calls whose inputs
  agree on these prefixes pass the same truncated texts, within those lengths, to the
  analysis chain and, for the same behaviour of the chain, return the same result.
\<close>

theorem analyze_resume_prefix:
  assumes "take 2000 r1 = take 2000 r2" and "take 1000 j1 = take 1000 j2"
  shows "truncate_inputs r1 j1 = truncate_inputs r2 j2
       \<and> length (fst (truncate_inputs r1 j1)) \<le> 2000
       \<and> length (snd (truncate_inputs r1 j1)) \<le> 1000
       \<and> analyze_resume analysis_chain_run r1 j1 = analyze_resume analysis_chain_run r2 j2"
proof -
  from assms have "truncate_inputs r1 j1 = truncate_inputs r2 j2"
    by (simp only: truncate_inputs_take)
  moreover from this
  have "analyze_resume analysis_chain_run r1 j1 = analyze_resume analysis_chain_run r2 j2"
    by (simp only: analyze_resume_def)
  ultimately show ?thesis by (simp add: truncate_inputs_take)
qed

theorem analyze_resume_prefix_witness:
  "replicate 2000 (CHR ''a'') @ ''x'' \<noteq> replicate 2000 (CHR ''a'') @ ''y''
   \<and> analyze_resume echo_chain (replicate 2000 (CHR ''a'') @ ''x'') ''developer''
       = analyze_resume echo_chain (replicate 2000 (CHR ''a'') @ ''y'') ''developer''"
proof -
  have h: "take 2000 (replicate 2000 (CHR ''a'') @ ''x'')
         = take 2000 (replicate 2000 (CHR ''a'') @ ''y'')"
    by simp
  from analyze_resume_prefix [OF h refl, of "''developer''" echo_chain]
  show ?thesis by simp
qed


end
